theory Spec2Isabelle
  imports Main "HOL-Library.Multiset"
begin

section \<open>The playtime bot: clock, local days and the SQLite store\<close>

text \<open>
  The program is one Python file, \<^verbatim>\<open>discord-playtime-bot.py\<close>. Its state is
  \<^item> the SQLite database behind class \<^verbatim>\<open>Store\<close> (tables \<^verbatim>\<open>totals\<close>,
    \<^verbatim>\<open>daily_totals\<close>, \<^verbatim>\<open>guild_usernames\<close>), and
  \<^item> the dictionary \<^verbatim>\<open>PresenceTracker.active\<close> of running sessions.
  Both are passed explicitly here. The wall clock (\<^verbatim>\<open>now_utc()\<close>) and the time
  zone (\<^verbatim>\<open>to_local\<close>) are inputs of the program, so every operation that reads
  them takes them as arguments: \<open>now\<close> is the instant the operation runs at, and
  the queries, whose window depends on two reads of the clock, take both reads;
  \<open>tz\<close> gives the UTC offset of the configured zone at an instant
  (\<open>\<lambda>_. 0\<close> is UTC, which is also what \<^verbatim>\<open>to_local\<close> falls back to).
  SQLite and discord.py errors (a locked database, a closed connection) are not modelled.
\<close>

type_synonym user_id = int
type_synonym activity = string

text \<open>An aware \<^verbatim>\<open>datetime\<close>: microseconds since the Unix epoch, in UTC.\<close>

type_synonym utc_time = int

text \<open>
  A local calendar day, counted in days since 1970-01-01. The program stores and compares
  days as ISO strings \<^verbatim>\<open>YYYY-MM-DD\<close>; for the years 0001 to 9999 of a Python
  \<^verbatim>\<open>date\<close> these strings have a fixed width and order as the days do, so the
  day number stands for the string.
\<close>

type_synonym day = int

definition HEARTBEAT_SECONDS :: int where
  "HEARTBEAT_SECONDS = 60"

text \<open>\<^verbatim>\<open>int(td.total_seconds())\<close> of a timedelta of \<open>d\<close> microseconds: whole
  seconds, truncated towards zero. (Python divides in floating point, which is exact on
  spans far longer than any session; the model divides exactly.)\<close>

definition total_seconds_int :: "int \<Rightarrow> int" where
  "total_seconds_int d = (if 0 \<le> d then d div 1000000 else - ((- d) div 1000000))"

text \<open>\<^verbatim>\<open>iso_date_local(d)\<close> for a datetime \<open>d\<close>: the date of \<open>d\<close> in the local zone.\<close>

definition iso_date_local :: "(utc_time \<Rightarrow> int) \<Rightarrow> utc_time \<Rightarrow> day" where
  "iso_date_local tz d = (d + tz d) div 86400000000"

subsection \<open>Tables\<close>

text \<open>
  A table is the list of its rows, key first; the keys of a table are distinct (its
  PRIMARY KEY). \<^verbatim>\<open>INSERT ... ON CONFLICT(key) DO UPDATE\<close> changes the row of an
  existing key and adds a row for a new key. The order of the list carries no meaning: a
  query hands its rows to the database engine, which orders them as it likes (see the
  queries below). Seconds and user ids are Python integers, stored as SQLite INTEGER; the model
  keeps them unbounded and leaves the 64-bit range of the column aside.
\<close>

record store =
  totals :: "((user_id \<times> activity) \<times> int) list"
  daily_totals :: "((user_id \<times> activity \<times> day) \<times> int) list"
  guild_usernames :: "(user_id \<times> (string \<times> utc_time)) list"

text \<open>\<^verbatim>\<open>_init_db\<close> on a new file: three empty tables.\<close>

definition init_db :: store where
  "init_db = \<lparr>totals = [], daily_totals = [], guild_usernames = []\<rparr>"

text \<open>\<^verbatim>\<open>INSERT ... VALUES(k, s) ON CONFLICT(k) DO UPDATE SET seconds = seconds +
  excluded.seconds\<close>\<close>

fun upsert_add :: "'k \<Rightarrow> int \<Rightarrow> ('k \<times> int) list \<Rightarrow> ('k \<times> int) list" where
  "upsert_add k s [] = [(k, s)]"
| "upsert_add k s ((k', v) # rows) =
     (if k' = k then (k', v + s) # rows else (k', v) # upsert_add k s rows)"

text \<open>\<^verbatim>\<open>INSERT ... VALUES(k, v) ON CONFLICT(k) DO UPDATE SET\<close> every column to the
  new value. The same function is a Python \<^verbatim>\<open>d[k] = v\<close> on a dictionary kept in
  insertion order.\<close>

fun dict_set :: "'k \<Rightarrow> 'v \<Rightarrow> ('k \<times> 'v) list \<Rightarrow> ('k \<times> 'v) list" where
  "dict_set k v [] = [(k, v)]"
| "dict_set k v ((k', v') # kvs) =
     (if k' = k then (k, v) # kvs else (k', v') # dict_set k v kvs)"

subsection \<open>\<^verbatim>\<open>Store.add_time\<close>\<close>

definition add_time ::
  "(utc_time \<Rightarrow> int) \<Rightarrow> utc_time \<Rightarrow> store \<Rightarrow> user_id \<Rightarrow> string \<Rightarrow> activity \<Rightarrow> int \<Rightarrow>
     utc_time option \<Rightarrow> store" where
  "add_time tz now st user_id username activity seconds when =
     (if seconds \<le> 0 then st
      else
        let when' = (case when of None \<Rightarrow> now | Some w \<Rightarrow> w);
            day = iso_date_local tz when'
        in st\<lparr>guild_usernames := dict_set user_id (username, now) (guild_usernames st),
              totals := upsert_add (user_id, activity) seconds (totals st),
              daily_totals := upsert_add (user_id, activity, day) seconds (daily_totals st)\<rparr>)"

text \<open>What the tables hold for a key: the seconds of its row, 0 when it has none.\<close>

definition counter_value :: "('k \<times> int) list \<Rightarrow> 'k \<Rightarrow> int" where
  "counter_value rows k = (case map_of rows k of None \<Rightarrow> 0 | Some s \<Rightarrow> s)"

text \<open>The TotalCounter of a user and an activity.\<close>

definition total_seconds :: "store \<Rightarrow> user_id \<Rightarrow> activity \<Rightarrow> int" where
  "total_seconds st u a = counter_value (totals st) (u, a)"

text \<open>The sum of the DailyCounter rows of a user and an activity, over all days.\<close>

definition daily_seconds :: "store \<Rightarrow> user_id \<Rightarrow> activity \<Rightarrow> int" where
  "daily_seconds st u a =
     sum_list (map snd (filter (\<lambda>r. fst (fst r) = u \<and> fst (snd (fst r)) = a) (daily_totals st)))"

text \<open>
  A sequence of \<^verbatim>\<open>add_time\<close> calls, each with its arguments and the instant it runs
  at, applied to a store from left to right.
\<close>

record call =
  call_user :: user_id
  call_username :: string
  call_activity :: activity
  call_seconds :: int
  call_when :: "utc_time option"
  call_now :: utc_time

definition add_times :: "(utc_time \<Rightarrow> int) \<Rightarrow> call list \<Rightarrow> store \<Rightarrow> store" where
  "add_times tz calls st =
     fold (\<lambda>c st'. add_time tz (call_now c) st' (call_user c) (call_username c)
             (call_activity c) (call_seconds c) (call_when c)) calls st"

section \<open>Queries\<close>

text \<open>
  Every query is one SELECT statement; the model follows the clauses in the order SQL
  evaluates them: FROM and JOIN, WHERE, GROUP BY, ORDER BY, LIMIT.

  The statements end in \<^verbatim>\<open>ORDER BY seconds DESC\<close>. SQL fixes the order of the result
  through that key only: which of the rows with equal seconds comes first, and which of
  them a LIMIT keeps, is the choice of the database engine (the index it reads through,
  the way it sorts), not of the program. That choice is a parameter of the queries here,
  \<open>engine\<close>: it takes the selected rows and returns them in the order the engine
  produces them, a rearrangement of the same rows. ORDER BY then sorts by seconds and
  leaves rows with equal seconds as the engine gave them. Nothing is assumed of the
  engine but that it rearranges, so the order of the lists that stand for the tables has
  no meaning, and every statement about the queries holds whatever the engine does with
  ties.
\<close>

definition rearranges :: "('a list \<Rightarrow> 'a list) \<Rightarrow> bool" where
  "rearranges engine = (\<forall>rows. mset (engine rows) = mset rows)"

text \<open>\<^verbatim>\<open>LIMIT n\<close>: SQLite returns every row when \<open>n\<close> is negative.\<close>

definition sql_limit :: "int \<Rightarrow> 'a list \<Rightarrow> 'a list" where
  "sql_limit n rows = (if n < 0 then rows else take (nat n) rows)"

text \<open>\<^verbatim>\<open>ORDER BY seconds DESC\<close>, on rows whose last column is the seconds.\<close>

definition order_by_seconds_desc ::
  "(('a \<times> int) list \<Rightarrow> ('a \<times> int) list) \<Rightarrow> ('a \<times> int) list \<Rightarrow> ('a \<times> int) list" where
  "order_by_seconds_desc engine rows = sort_key (\<lambda>r. - snd r) (engine rows)"

text \<open>\<^verbatim>\<open>SELECT g, SUM(seconds) ... GROUP BY g\<close>: one row for each group that has a row.\<close>

definition group_sum :: "('g \<times> int) list \<Rightarrow> ('g \<times> int) list" where
  "group_sum rows =
     map (\<lambda>g. (g, sum_list (map snd (filter (\<lambda>r. fst r = g) rows)))) (remdups (map fst rows))"

text \<open>
  The window of a period other than \<^verbatim>\<open>"all"\<close>. A query reads the clock once for the
  end of the window (\<^verbatim>\<open>end = iso_date_local()\<close>) and, for \<^verbatim>\<open>"week"\<close> and
  \<^verbatim>\<open>"month"\<close>, once more for its start (\<^verbatim>\<open>to_local(now_utc()).date() -
  timedelta(days=6)\<close>): \<open>end_day\<close> is the local day of the first read and \<open>today'\<close>
  the local day of the second. \<open>None\<close> is the fallback string \<^verbatim>\<open>"0000-01-01"\<close>,
  which sorts before the ISO string of every date.
\<close>

definition period_start :: "day \<Rightarrow> day \<Rightarrow> string \<Rightarrow> day option" where
  "period_start end_day today' period =
     (if period = ''today'' then Some end_day
      else if period = ''week'' then Some (today' - 6)
      else if period = ''month'' then Some (today' - 29)
      else None)"

text \<open>\<^verbatim>\<open>day BETWEEN start AND end\<close>\<close>

definition day_between :: "day option \<Rightarrow> day \<Rightarrow> day \<Rightarrow> bool" where
  "day_between start_day end_day d =
     ((case start_day of None \<Rightarrow> True | Some s \<Rightarrow> s \<le> d) \<and> d \<le> end_day)"

subsection \<open>\<^verbatim>\<open>Store.top_activities\<close>\<close>

text \<open>
  The rows the statement selects, before ORDER BY and LIMIT. \<open>now\<close> is the first read
  of the clock and \<open>now'\<close> the second.
\<close>

definition activity_rows ::
  "(utc_time \<Rightarrow> int) \<Rightarrow> utc_time \<Rightarrow> utc_time \<Rightarrow> store \<Rightarrow> user_id \<Rightarrow> string \<Rightarrow>
     (activity \<times> int) list" where
  "activity_rows tz now now' st user_id period =
     (if period = ''all'' then
        map (\<lambda>((u, a), s). (a, s)) (filter (\<lambda>((u, a), s). u = user_id) (totals st))
      else
        let end_day = iso_date_local tz now;
            start_day = period_start end_day (iso_date_local tz now') period
        in group_sum
             (map (\<lambda>((u, a, d), s). (a, s))
                (filter (\<lambda>((u, a, d), s). u = user_id \<and> day_between start_day end_day d)
                   (daily_totals st))))"

definition top_activities ::
  "((activity \<times> int) list \<Rightarrow> (activity \<times> int) list) \<Rightarrow> (utc_time \<Rightarrow> int) \<Rightarrow> utc_time \<Rightarrow>
     utc_time \<Rightarrow> store \<Rightarrow> user_id \<Rightarrow> string \<Rightarrow> int \<Rightarrow> (activity \<times> int) list" where
  "top_activities engine tz now now' st user_id period limit =
     sql_limit limit
       (order_by_seconds_desc engine (activity_rows tz now now' st user_id period))"

subsection \<open>\<^verbatim>\<open>Store.leaderboard\<close>\<close>

text \<open>\<^verbatim>\<open>FROM t JOIN guild_usernames gu ON gu.user_id = t.user_id\<close>: each row of \<open>t\<close>
  with the username of its user; a row whose user has no username row drops out.\<close>

definition join_usernames ::
  "('k \<times> int) list \<Rightarrow> ('k \<Rightarrow> user_id) \<Rightarrow> (user_id \<times> (string \<times> utc_time)) list \<Rightarrow>
     (('k \<times> int) \<times> string) list" where
  "join_usernames rows user_of gu =
     concat (map (\<lambda>r. case map_of gu (user_of (fst r)) of
                         None \<Rightarrow> []
                       | Some (username, updated_at) \<Rightarrow> [(r, username)]) rows)"

text \<open>Python's \<^verbatim>\<open>if activity:\<close> on a \<^verbatim>\<open>str | None\<close>: the name, unless it is
  \<^verbatim>\<open>None\<close> or empty.\<close>

definition given_name :: "string option \<Rightarrow> string option" where
  "given_name activity =
     (case activity of None \<Rightarrow> None | Some x \<Rightarrow> if x = [] then None else Some x)"

text \<open>
  The rows the statement selects, before ORDER BY and LIMIT, as (user id, username) and
  seconds. The statements group by the user id alone and select the username beside it;
  the join gives every row of a user the same username, so the pair names the same group.
\<close>

definition user_rows ::
  "(utc_time \<Rightarrow> int) \<Rightarrow> utc_time \<Rightarrow> utc_time \<Rightarrow> store \<Rightarrow> user_id list \<Rightarrow> string option \<Rightarrow>
     string \<Rightarrow> ((user_id \<times> string) \<times> int) list" where
  "user_rows tz now now' st guild_user_ids activity period =
     (if period = ''all'' then
        (case given_name activity of
           Some x \<Rightarrow>
             map (\<lambda>(((u, a), s), username). ((u, username), s))
               (filter (\<lambda>(((u, a), s), username). u \<in> set guild_user_ids \<and> a = x)
                  (join_usernames (totals st) fst (guild_usernames st)))
         | None \<Rightarrow>
             group_sum
               (map (\<lambda>(((u, a), s), username). ((u, username), s))
                  (filter (\<lambda>(((u, a), s), username). u \<in> set guild_user_ids)
                     (join_usernames (totals st) fst (guild_usernames st)))))
      else
        let end_day = iso_date_local tz now;
            start_day = period_start end_day (iso_date_local tz now') period
        in (case given_name activity of
              Some x \<Rightarrow>
                group_sum
                  (map (\<lambda>(((u, a, d), s), username). ((u, username), s))
                     (filter (\<lambda>(((u, a, d), s), username).
                          u \<in> set guild_user_ids \<and> a = x \<and> day_between start_day end_day d)
                        (join_usernames (daily_totals st) fst (guild_usernames st))))
            | None \<Rightarrow>
                group_sum
                  (map (\<lambda>(((u, a, d), s), username). ((u, username), s))
                     (filter (\<lambda>(((u, a, d), s), username).
                          u \<in> set guild_user_ids \<and> day_between start_day end_day d)
                        (join_usernames (daily_totals st) fst (guild_usernames st))))))"

definition leaderboard ::
  "(((user_id \<times> string) \<times> int) list \<Rightarrow> ((user_id \<times> string) \<times> int) list) \<Rightarrow>
     (utc_time \<Rightarrow> int) \<Rightarrow> utc_time \<Rightarrow> utc_time \<Rightarrow> store \<Rightarrow> user_id list \<Rightarrow> string option \<Rightarrow>
     string \<Rightarrow> int \<Rightarrow> (user_id \<times> string \<times> int) list" where
  "leaderboard engine tz now now' st guild_user_ids activity period limit =
     (if guild_user_ids = [] then []
      else map (\<lambda>((u, username), s). (u, username, s))
             (sql_limit limit
                (order_by_seconds_desc engine
                   (user_rows tz now now' st guild_user_ids activity period))))"

subsection \<open>The window in the words of the specification\<close>


section \<open>The presence tracker\<close>

text \<open>
  \<^verbatim>\<open>PresenceTracker.active\<close>: user id to (activity name to start time), two Python
  dictionaries, each in insertion order with distinct keys.
\<close>

type_synonym sessions = "(activity \<times> utc_time) list"
type_synonym active_map = "(user_id \<times> sessions) list"

text \<open>\<^verbatim>\<open>d.setdefault(k, v)\<close>\<close>

definition setdefault :: "'k \<Rightarrow> 'v \<Rightarrow> ('k \<times> 'v) list \<Rightarrow> ('k \<times> 'v) list" where
  "setdefault k v kvs = (case map_of kvs k of None \<Rightarrow> kvs @ [(k, v)] | Some _ \<Rightarrow> kvs)"

text \<open>\<^verbatim>\<open>d.pop(k, None)\<close>, the dictionary it leaves.\<close>

definition dict_pop :: "'k \<Rightarrow> ('k \<times> 'v) list \<Rightarrow> ('k \<times> 'v) list" where
  "dict_pop k kvs = filter (\<lambda>kv. fst kv \<noteq> k) kvs"

definition start :: "utc_time \<Rightarrow> active_map \<Rightarrow> user_id \<Rightarrow> activity \<Rightarrow> active_map" where
  "start now active user_id activity =
     (let active1 = setdefault user_id [] active
      in case map_of active1 user_id of
           None \<Rightarrow> active1
         | Some sessions \<Rightarrow>
             (case map_of sessions activity of
                None \<Rightarrow> dict_set user_id (dict_set activity now sessions) active1
              | Some _ \<Rightarrow> active1))"

text \<open>\<^verbatim>\<open>stop\<close> returns the elapsed seconds; the second component is
  \<^verbatim>\<open>self.active\<close> afterwards.\<close>

definition stop :: "utc_time \<Rightarrow> active_map \<Rightarrow> user_id \<Rightarrow> activity \<Rightarrow> int \<times> active_map" where
  "stop now active user_id activity =
     (case map_of active user_id of
        None \<Rightarrow> (0, active)
      | Some sessions \<Rightarrow>
          (case map_of sessions activity of
             None \<Rightarrow> (0, active)
           | Some started \<Rightarrow>
               (total_seconds_int (now - started),
                dict_set user_id (dict_pop activity sessions) active)))"

text \<open>Whether a session of the user for the activity is running.\<close>

definition is_active :: "active_map \<Rightarrow> user_id \<Rightarrow> activity \<Rightarrow> bool" where
  "is_active active u a =
     (case map_of active u of None \<Rightarrow> False | Some sessions \<Rightarrow> map_of sessions a \<noteq> None)"

text \<open>The start time \<^verbatim>\<open>active[u][a]\<close> of a running session.\<close>

definition started_at :: "active_map \<Rightarrow> user_id \<Rightarrow> activity \<Rightarrow> utc_time option" where
  "started_at active u a =
     (case map_of active u of None \<Rightarrow> None | Some sessions \<Rightarrow> map_of sessions a)"

subsection \<open>One pass of the heartbeat loop\<close>

text \<open>
  The body of the \<^verbatim>\<open>while\<close> loop of \<^verbatim>\<open>heartbeat\<close>, before it sleeps:
  \<open>guilds\<close> is \<^verbatim>\<open>bot.guilds\<close>, each guild the list of its members, a member its
  id and \<^verbatim>\<open>str(member)\<close>. The pass reads \<^verbatim>\<open>active\<close> and writes the store only.
\<close>

definition credit_member ::
  "(utc_time \<Rightarrow> int) \<Rightarrow> utc_time \<Rightarrow> active_map \<Rightarrow> user_id \<times> string \<Rightarrow> store \<Rightarrow> store" where
  "credit_member tz now active member st =
     (case map_of active (fst member) of
        None \<Rightarrow> st
      | Some sessions \<Rightarrow>
          if sessions = [] then st
          else fold (\<lambda>session st'.
                 add_time tz now st' (fst member) (snd member) (fst session) HEARTBEAT_SECONDS None)
                 sessions st)"

definition heartbeat_tick ::
  "(utc_time \<Rightarrow> int) \<Rightarrow> utc_time \<Rightarrow> (user_id \<times> string) list list \<Rightarrow> active_map \<Rightarrow> store \<Rightarrow> store" where
  "heartbeat_tick tz now guilds active st =
     fold (\<lambda>guild st'. fold (credit_member tz now active) guild st') guilds st"

subsection \<open>\<^verbatim>\<open>on_presence_update\<close>\<close>

text \<open>
  \<open>before_name\<close> and \<open>after_name\<close> are the results of \<^verbatim>\<open>get_playing_name\<close> on the
  member before and after (\<open>None\<close> when no tracked activity); \<open>user_id\<close> and
  \<open>username\<close> are \<^verbatim>\<open>after.id\<close> and \<^verbatim>\<open>str(after)\<close>. An empty name is false in
  Python's \<^verbatim>\<open>if before_name and ...\<close>, as \<open>None\<close> is.
\<close>

definition on_presence_update ::
  "(utc_time \<Rightarrow> int) \<Rightarrow> utc_time \<Rightarrow> active_map \<times> store \<Rightarrow> user_id \<Rightarrow> string \<Rightarrow>
     string option \<Rightarrow> string option \<Rightarrow> active_map \<times> store" where
  "on_presence_update tz now s user_id username before_name after_name =
     (if before_name = after_name then s
      else
        let s1 = (case before_name of
                    None \<Rightarrow> s
                  | Some b \<Rightarrow>
                      if b = [] then s
                      else
                        (case stop now (fst s) user_id b of
                           (elapsed, active') \<Rightarrow>
                             (active',
                              if elapsed > 0
                              then add_time tz now (snd s) user_id username b elapsed None
                              else snd s)))
        in (case after_name of
              None \<Rightarrow> s1
            | Some a \<Rightarrow> if a = [] then s1 else (start now (fst s1) user_id a, snd s1)))"

section \<open>Facts about dictionaries and tables\<close>

lemma map_of_dict_set: "map_of (dict_set k v kvs) = (map_of kvs)(k \<mapsto> v)"
  by (induction kvs) (auto simp: fun_eq_iff)

lemma map_of_dict_pop_same: "map_of (dict_pop k kvs) k = None"
  by (induction kvs) (auto simp: dict_pop_def)

lemma map_of_setdefault:
  "map_of (setdefault k v kvs) k' =
     (if k' = k \<and> map_of kvs k = None then Some v else map_of kvs k')"
  by (auto simp: setdefault_def map_add_def split: option.splits)

lemma map_of_upsert_add:
  "map_of (upsert_add k s rows) k' =
     (if k' = k then Some (counter_value rows k + s) else map_of rows k')"
  by (induction rows) (auto simp: counter_value_def)

lemma counter_value_upsert_add:
  "counter_value (upsert_add k s rows) k' = counter_value rows k' + (if k' = k then s else 0)"
  by (simp add: counter_value_def map_of_upsert_add)

lemma sum_filter_upsert_add:
  "sum_list (map snd (filter (\<lambda>r. P (fst r)) (upsert_add k s rows)))
     = sum_list (map snd (filter (\<lambda>r. P (fst r)) rows)) + (if P k then s else 0)"
  by (induction rows) auto

lemma daily_sum_upsert_add:
  "sum_list (map snd (filter (\<lambda>r. fst (fst r) = u \<and> fst (snd (fst r)) = a)
       (upsert_add (u', a', d) s rows)))
     = sum_list (map snd (filter (\<lambda>r. fst (fst r) = u \<and> fst (snd (fst r)) = a) rows))
       + (if u' = u \<and> a' = a then s else 0)"
  using sum_filter_upsert_add [of "\<lambda>k. fst k = u \<and> fst (snd k) = a" "(u', a', d)" s rows]
  by simp

lemma total_seconds_add_time:
  "total_seconds (add_time tz now st u' name a' seconds when) u a
     = total_seconds st u a + (if 0 < seconds \<and> u' = u \<and> a' = a then seconds else 0)"
  by (auto simp: total_seconds_def add_time_def Let_def counter_value_upsert_add)

lemma daily_seconds_add_time:
  "daily_seconds (add_time tz now st u' name a' seconds when) u a
     = daily_seconds st u a + (if 0 < seconds \<and> u' = u \<and> a' = a then seconds else 0)"
  by (simp add: daily_seconds_def add_time_def Let_def daily_sum_upsert_add)

lemma total_seconds_add_times:
  "total_seconds (add_times tz calls st) u a
     = total_seconds st u a
       + sum_list (map call_seconds
           (filter (\<lambda>c. 0 < call_seconds c \<and> call_user c = u \<and> call_activity c = a) calls))"
  by (induction calls arbitrary: st) (auto simp: add_times_def total_seconds_add_time)

lemma daily_seconds_add_times:
  "daily_seconds (add_times tz calls st) u a
     = daily_seconds st u a
       + sum_list (map call_seconds
           (filter (\<lambda>c. 0 < call_seconds c \<and> call_user c = u \<and> call_activity c = a) calls))"
  by (induction calls arbitrary: st) (auto simp: add_times_def daily_seconds_add_time)

lemma init_db_seconds: "total_seconds init_db u a = 0" "daily_seconds init_db u a = 0"
  by (simp_all add: total_seconds_def daily_seconds_def init_db_def counter_value_def)

section \<open>Sessions: start and stop\<close>

lemma start_active_same: "is_active active u a \<Longrightarrow> start now active u a = active"
  by (auto simp: is_active_def start_def setdefault_def split: option.splits)

lemma is_active_start: "is_active (start now active u a) u a"
  by (auto simp: is_active_def start_def map_of_setdefault map_of_dict_set Let_def
      split: option.splits)

lemma stop_inactive: "\<not> is_active active u a \<Longrightarrow> stop now active u a = (0, active)"
  by (auto simp: is_active_def stop_def split: option.splits)

lemma not_active_after_stop: "\<not> is_active (snd (stop now active u a)) u a"
  by (auto simp: is_active_def stop_def map_of_dict_set map_of_dict_pop_same
      split: option.splits)

text \<open>
  C5. \<^verbatim>\<open>start\<close> is idempotent: after \<open>start(u, a)\<close> the session is running, and a
  \<open>start(u, a)\<close> on a tracker where that session is running (at any later instant, with
  no \<open>stop(u, a)\<close> in between) returns the tracker as it was, so the stored start time and
  everything else in \<^verbatim>\<open>active\<close> are those of the first start.
\<close>

theorem start_idempotent:
  "is_active (start first active u a) u a
   \<and> start again (start first active u a) u a = start first active u a
   \<and> started_at (start again (start first active u a) u a) u a
       = started_at (start first active u a) u a
   \<and> (is_active active' u a \<longrightarrow> start now active' u a = active')"
  by (simp add: is_active_start start_active_same)

theorem start_idempotent_witness:
  "is_active [(1, [(''Chess'', 0)])] 1 ''Chess''
   \<and> start 5000000 (start 0 [] 1 ''Chess'') 1 ''Chess'' = [(1, [(''Chess'', 0)])]
   \<and> started_at (start 5000000 (start 0 [] 1 ''Chess'') 1 ''Chess'') 1 ''Chess'' = Some 0
   \<and> start 7000000 [(1, [(''Chess'', 0)])] 1 ''Chess'' = [(1, [(''Chess'', 0)])]"
proof -
  have s1: "start 0 [] 1 ''Chess'' = [(1, [(''Chess'', 0)])]"
    by (simp add: start_def setdefault_def)
  have act: "is_active [(1, [(''Chess'', 0)])] 1 ''Chess''"
    by (simp add: is_active_def)
  have st: "started_at [(1, [(''Chess'', 0)])] 1 ''Chess'' = Some 0"
    by (simp add: started_at_def)
  from start_idempotent [where first = 0 and active = "[]" and u = 1 and a = "''Chess''"
      and again = 5000000 and active' = "[(1, [(''Chess'', 0)])]" and now = 7000000]
  show ?thesis
    using act st by (simp add: s1)
qed

text \<open>
  C6. With no running session for \<open>(u, a)\<close>, \<^verbatim>\<open>stop(u, a)\<close> returns 0 and leaves
  \<^verbatim>\<open>active\<close> as it was; \<^verbatim>\<open>on_presence_update\<close>, which credits only a positive
  result of \<^verbatim>\<open>stop\<close>, then leaves the store as it was (and the whole state, when no new
  activity starts). A \<^verbatim>\<open>stop\<close> right after a \<^verbatim>\<open>stop\<close> of the same pair is such a
  call: it returns 0 and changes nothing.
\<close>

theorem stop_without_session:
  "\<not> is_active active u a \<Longrightarrow>
     stop now active u a = (0, active)
     \<and> snd (on_presence_update tz now (active, st) u name (Some a) after) = st
     \<and> on_presence_update tz now (active, st) u name (Some a) None = (active, st)
     \<and> stop now' (snd (stop now active' u a)) u a = (0, snd (stop now active' u a))"
  by (auto simp: on_presence_update_def stop_inactive not_active_after_stop Let_def
      split: option.splits)

theorem stop_without_session_witness:
  "\<not> is_active [] 1 ''Chess''
   \<and> stop 90000000 [] 1 ''Chess'' = (0, [])
   \<and> snd (on_presence_update (\<lambda>_. 0) 90000000 ([], init_db) 1 ''alice'' (Some ''Chess'')
            (Some ''Go'')) = init_db
   \<and> on_presence_update (\<lambda>_. 0) 90000000 ([], init_db) 1 ''alice'' (Some ''Chess'') None
       = ([], init_db)
   \<and> stop 95000000 (snd (stop 90000000 [(1, [(''Chess'', 0)])] 1 ''Chess'')) 1 ''Chess''
       = (0, [(1, [])])"
proof -
  have h: "\<not> is_active [] 1 ''Chess''"
    by (simp add: is_active_def)
  have s: "snd (stop 90000000 [(1, [(''Chess'', 0)])] 1 ''Chess'') = [(1, [])]"
    by (simp add: stop_def dict_pop_def)
  from stop_without_session [where active = "[]" and u = 1 and a = "''Chess''"
      and now = 90000000 and tz = "\<lambda>_. 0" and st = init_db and name = "''alice''"
      and after = "Some ''Go''" and now' = 95000000 and active' = "[(1, [(''Chess'', 0)])]"]
  show ?thesis
    using h by (simp add: s)
qed

lemma stop_started:
  "started_at active u a = Some t \<Longrightarrow> fst (stop now active u a) = total_seconds_int (now - t)"
  by (auto simp: started_at_def stop_def split: option.splits)

lemma start_fresh: "start t [] u a = [(u, [(a, t)])]"
  by (simp add: start_def setdefault_def)

lemma stop_whole_seconds:
  "0 \<le> n \<Longrightarrow> stop (t + n * 1000000) [(u, [(a, t)])] u a = (n, [(u, [])])"
  by (simp add: stop_def dict_pop_def total_seconds_int_def)

lemma tick_one_member:
  "total_seconds (heartbeat_tick tz now [[(u, name)]] [(u, [(a, t)])] st) u a
     = total_seconds st u a + 60"
  by (simp add: heartbeat_tick_def credit_member_def HEARTBEAT_SECONDS_def
      total_seconds_add_time)

text \<open>
  C1, as the program has it. \<^verbatim>\<open>active\<close> keeps one instant for a session, its start, and
  the heartbeat does not touch \<^verbatim>\<open>active\<close>; \<^verbatim>\<open>stop\<close> returns the whole seconds
  from that start to now. So for a session started at \<open>t\<close> on a new tracker, credited 60
  seconds by one heartbeat pass at \<open>t + 60s\<close> and stopped at \<open>t + 90s\<close>, \<^verbatim>\<open>stop\<close>
  returns 90 and the store holds 60 more after the pass and 150 more after the stop, not 90.
\<close>

theorem stop_credits_since_start:
  "a \<noteq> [] \<Longrightarrow>
     (let s1 = on_presence_update tz t ([], st) u name None (Some a);
          st2 = heartbeat_tick tz (t + 60000000) [[(u, name)]] (fst s1) (snd s1);
          s3 = on_presence_update tz (t + 90000000) (fst s1, st2) u name (Some a) None
      in fst (stop (t + 90000000) (fst s1) u a) = 90
         \<and> total_seconds st2 u a = total_seconds st u a + 60
         \<and> total_seconds (snd s3) u a = total_seconds st u a + 150)
     \<and> (started_at active u' a' = Some t' \<longrightarrow>
          fst (stop now active u' a') = total_seconds_int (now - t'))"
proof -
  assume a: "a \<noteq> []"
  have s1: "on_presence_update tz t ([], st) u name None (Some a) = ([(u, [(a, t)])], st)"
    using a by (simp add: on_presence_update_def start_fresh)
  have stp: "stop (t + 90000000) [(u, [(a, t)])] u a = (90, [(u, [])])"
    using stop_whole_seconds [of 90 t u a] by simp
  have s3: "snd (on_presence_update tz (t + 90000000) ([(u, [(a, t)])], st') u name (Some a) None)
              = add_time tz (t + 90000000) st' u name a 90 None" for st'
    using a by (simp add: on_presence_update_def stp)
  show ?thesis
    by (simp add: s1 stp s3 tick_one_member total_seconds_add_time stop_started Let_def)
qed

theorem stop_credits_since_start_witness:
  "fst (stop 90000000 [(1, [(''Chess'', 0)])] 1 ''Chess'') = 90
   \<and> total_seconds (heartbeat_tick (\<lambda>_. 0) 60000000 [[(1, ''alice'')]]
         [(1, [(''Chess'', 0)])] init_db) 1 ''Chess'' = 60
   \<and> total_seconds
       (snd (on_presence_update (\<lambda>_. 0) 90000000
          ([(1, [(''Chess'', 0)])],
           heartbeat_tick (\<lambda>_. 0) 60000000 [[(1, ''alice'')]] [(1, [(''Chess'', 0)])] init_db)
          1 ''alice'' (Some ''Chess'') None)) 1 ''Chess'' = 150
   \<and> fst (stop 7500000 [(2, [(''Go'', 5000000)])] 2 ''Go'') = 2"
proof -
  have a: "''Chess'' \<noteq> []"
    by simp
  have s1: "on_presence_update (\<lambda>_. 0) 0 ([], init_db) 1 ''alice'' None (Some ''Chess'')
              = ([(1, [(''Chess'', 0)])], init_db)"
    by (simp add: on_presence_update_def start_fresh)
  have g: "started_at [(2, [(''Go'', 5000000)])] 2 ''Go'' = Some 5000000"
    by (simp add: started_at_def)
  from stop_credits_since_start [OF a, where tz = "\<lambda>_. 0" and t = 0 and st = init_db
      and u = 1 and name = "''alice''" and active = "[(2, [(''Go'', 5000000)])]" and u' = 2
      and a' = "''Go''" and t' = 5000000 and now = 7500000]
  show ?thesis
    using g by (simp add: s1 Let_def init_db_seconds total_seconds_int_def)
qed

text \<open>
  C1, as the claim states it, fails on the scenario itself: start at 0, one heartbeat pass
  at 60s, stop at 90s. The first conjunct is the total the store holds at the end, the
  others are the start and what \<^verbatim>\<open>stop\<close> returns.
\<close>

theorem double_count_counterexample:
  "total_seconds
     (snd (on_presence_update (\<lambda>_. 0) 90000000
        ([(1, [(''Chess'', 0)])],
         heartbeat_tick (\<lambda>_. 0) 60000000 [[(1, ''alice'')]] [(1, [(''Chess'', 0)])] init_db)
        1 ''alice'' (Some ''Chess'') None)) 1 ''Chess'' = 150
   \<and> on_presence_update (\<lambda>_. 0) 0 ([], init_db) 1 ''alice'' None (Some ''Chess'')
       = ([(1, [(''Chess'', 0)])], init_db)
   \<and> stop 90000000 [(1, [(''Chess'', 0)])] 1 ''Chess'' = (90, [(1, [])])"
  by (simp add: on_presence_update_def start_fresh heartbeat_tick_def credit_member_def
      HEARTBEAT_SECONDS_def add_time_def stop_def total_seconds_int_def dict_pop_def
      Let_def total_seconds_def counter_value_def init_db_def)

section \<open>The heartbeat\<close>

text \<open>
  C10. One pass of the heartbeat calls \<^verbatim>\<open>add_time\<close> with \<^verbatim>\<open>HEARTBEAT_SECONDS\<close>
  once for every member of every guild and every session of that member. A user who is a
  member of two guilds of the bot is visited twice, so a session of that user gets 120
  seconds in one pass; a user with a running session who is in no guild gets none.
\<close>

theorem heartbeat_two_guilds:
  "total_seconds
     (heartbeat_tick (\<lambda>_. 0) 60000000 [[(1, ''alice'')], [(1, ''alice'')]]
        [(1, [(''Chess'', 0)])] init_db) 1 ''Chess'' = 120
   \<and> total_seconds
     (heartbeat_tick (\<lambda>_. 0) 60000000 [[(2, ''bob'')]]
        [(1, [(''Chess'', 0)])] init_db) 1 ''Chess'' = 0"
  by (simp add: heartbeat_tick_def credit_member_def HEARTBEAT_SECONDS_def
      add_time_def Let_def total_seconds_def counter_value_def init_db_def)

section \<open>Crediting time\<close>

text \<open>
  C4. \<^verbatim>\<open>add_time\<close> with \<open>seconds \<le> 0\<close> returns the store unchanged: no row of
  \<^verbatim>\<open>totals\<close>, \<^verbatim>\<open>daily_totals\<close> or \<^verbatim>\<open>guild_usernames\<close> is written. So no call
  of \<^verbatim>\<open>add_time\<close>, whatever its arguments, lowers the seconds stored for a key of
  \<^verbatim>\<open>totals\<close> or of \<^verbatim>\<open>daily_totals\<close>.
\<close>

theorem add_time_nonpositive:
  "(seconds \<le> 0 \<longrightarrow> add_time tz now st u name a seconds when = st)
   \<and> counter_value (totals st) k
       \<le> counter_value (totals (add_time tz now st u name a seconds when)) k
   \<and> counter_value (daily_totals st) k'
       \<le> counter_value (daily_totals (add_time tz now st u name a seconds when)) k'"
  by (simp add: add_time_def Let_def counter_value_upsert_add)

theorem add_time_nonpositive_witness:
  "add_time (\<lambda>_. 0) 0 \<lparr>totals = [((1, ''Chess''), 60)], daily_totals = [((1, ''Chess'', 0), 60)],
       guild_usernames = [(1, (''alice'', 0))]\<rparr> 1 ''bob'' ''Chess'' (- 5) None
     = \<lparr>totals = [((1, ''Chess''), 60)], daily_totals = [((1, ''Chess'', 0), 60)],
         guild_usernames = [(1, (''alice'', 0))]\<rparr>"
proof -
  have h: "(- 5 :: int) \<le> 0"
    by simp
  from add_time_nonpositive [of "- 5" "\<lambda>_. 0" 0
      "\<lparr>totals = [((1, ''Chess''), 60)], daily_totals = [((1, ''Chess'', 0), 60)],
        guild_usernames = [(1, (''alice'', 0))]\<rparr>" 1 "''bob''" "''Chess''" None]
  show ?thesis
    using h by blast
qed

text \<open>
  C3. Additivity. Take any sequence of \<^verbatim>\<open>add_time\<close> calls on a new database, to any
  users and activities, in which every call to the key \<open>(u, a)\<close> has positive seconds.
  Then the \<^verbatim>\<open>totals\<close> row of \<open>(u, a)\<close> holds the sum of the seconds of the calls to
  \<open>(u, a)\<close>, and the \<^verbatim>\<open>daily_totals\<close> rows of \<open>(u, a)\<close> sum, over all days, to the
  same number. On any store the calls raise both by the same amount, so a store where the
  two agree for \<open>(u, a)\<close> stays one.
\<close>

theorem add_time_additive:
  assumes "\<forall>c \<in> set calls. call_user c = u \<and> call_activity c = a \<longrightarrow> 0 < call_seconds c"
  shows "total_seconds (add_times tz calls init_db) u a
           = sum_list (map call_seconds
               (filter (\<lambda>c. call_user c = u \<and> call_activity c = a) calls))
         \<and> daily_seconds (add_times tz calls init_db) u a
           = sum_list (map call_seconds
               (filter (\<lambda>c. call_user c = u \<and> call_activity c = a) calls))
         \<and> (total_seconds st u a = daily_seconds st u a \<longrightarrow>
              total_seconds (add_times tz calls st) u a
                = daily_seconds (add_times tz calls st) u a)"
proof -
  have f: "filter (\<lambda>c. 0 < call_seconds c \<and> call_user c = u \<and> call_activity c = a) calls
             = filter (\<lambda>c. call_user c = u \<and> call_activity c = a) calls"
    using assms by (intro filter_cong) auto
  show ?thesis
    by (simp add: total_seconds_add_times daily_seconds_add_times f init_db_seconds)
qed

theorem add_time_additive_witness:
  "total_seconds
     (add_times (\<lambda>_. 0)
        [\<lparr>call_user = 1, call_username = ''alice'', call_activity = ''Chess'',
          call_seconds = 60, call_when = None, call_now = 60000000\<rparr>,
         \<lparr>call_user = 2, call_username = ''bob'', call_activity = ''Chess'',
          call_seconds = 0, call_when = None, call_now = 70000000\<rparr>,
         \<lparr>call_user = 1, call_username = ''alice'', call_activity = ''Chess'',
          call_seconds = 30, call_when = Some 86400000000, call_now = 90000000\<rparr>]
        init_db) 1 ''Chess'' = 90
   \<and> daily_seconds
     (add_times (\<lambda>_. 0)
        [\<lparr>call_user = 1, call_username = ''alice'', call_activity = ''Chess'',
          call_seconds = 60, call_when = None, call_now = 60000000\<rparr>,
         \<lparr>call_user = 2, call_username = ''bob'', call_activity = ''Chess'',
          call_seconds = 0, call_when = None, call_now = 70000000\<rparr>,
         \<lparr>call_user = 1, call_username = ''alice'', call_activity = ''Chess'',
          call_seconds = 30, call_when = Some 86400000000, call_now = 90000000\<rparr>]
        init_db) 1 ''Chess'' = 90"
  using add_time_additive [where u = 1 and a = "''Chess''" and tz = "\<lambda>_. 0" and st = init_db
      and calls =
        "[\<lparr>call_user = 1, call_username = ''alice'', call_activity = ''Chess'',
           call_seconds = 60, call_when = None, call_now = 60000000\<rparr>,
          \<lparr>call_user = 2, call_username = ''bob'', call_activity = ''Chess'',
           call_seconds = 0, call_when = None, call_now = 70000000\<rparr>,
          \<lparr>call_user = 1, call_username = ''alice'', call_activity = ''Chess'',
           call_seconds = 30, call_when = Some 86400000000, call_now = 90000000\<rparr>]"]
  by simp

section \<open>Facts about the queries\<close>

lemma rearranges_set: "rearranges engine \<Longrightarrow> set (engine rows) = set rows"
  by (metis rearranges_def set_mset_mset)

lemma rearranges_length: "rearranges engine \<Longrightarrow> length (engine rows) = length rows"
  by (metis rearranges_def size_mset)


lemma rearranges_id: "rearranges (\<lambda>rows. rows)"
  by (simp add: rearranges_def)

lemma sorted_order_by:
  "sorted_wrt (\<lambda>x y. snd y \<le> snd x) (order_by_seconds_desc engine rows)"
proof -
  have "sorted (map (\<lambda>r. - snd r) (sort_key (\<lambda>r. - snd r) (engine rows)))"
    by (rule sorted_sort_key)
  then show ?thesis
    by (simp add: order_by_seconds_desc_def sorted_map)
qed

lemma set_order_by:
  "rearranges engine \<Longrightarrow> set (order_by_seconds_desc engine rows) = set rows"
  by (simp add: order_by_seconds_desc_def rearranges_set)


lemma set_sql_limit: "set (sql_limit n rows) \<subseteq> set rows"
  by (auto simp: sql_limit_def dest: in_set_takeD)

lemma length_sql_limit: "0 \<le> n \<Longrightarrow> int (length (sql_limit n rows)) \<le> n"
  by (simp add: sql_limit_def)

lemma sorted_sql_limit: "sorted_wrt R rows \<Longrightarrow> sorted_wrt R (sql_limit n rows)"
  by (simp add: sql_limit_def sorted_wrt_take)

lemma sql_limit_map: "sql_limit n (map f rows) = map f (sql_limit n rows)"
  by (simp add: sql_limit_def take_map)

lemma fst_set_group_sum: "fst ` set (group_sum rows) = fst ` set rows"
  by (force simp: group_sum_def image_iff)

lemma in_group_sumD: "(g, s) \<in> set (group_sum rows) \<Longrightarrow> \<exists>s'. (g, s') \<in> set rows"
  using fst_set_group_sum [of rows] by (force simp: image_iff set_eq_iff)


lemma user_rows_ids:
  "((u, n), s) \<in> set (user_rows tz now now' st ids act period) \<Longrightarrow> u \<in> set ids"
  unfolding user_rows_def Let_def
  by (auto split: option.splits if_splits dest!: in_group_sumD)




















section \<open>The leaderboard\<close>

text \<open>
  C8, for a limit that is not negative. Every result of \<^verbatim>\<open>leaderboard\<close> is ordered by
  seconds, largest first; when \<open>0 \<le> limit\<close> it has at most \<open>limit\<close> entries; every user
  id in it is one of \<^verbatim>\<open>guild_user_ids\<close> (the engine only rearranges the selected
  rows); and an empty \<^verbatim>\<open>guild_user_ids\<close> gives the empty result. This holds whatever the
  engine does with rows of equal seconds.
\<close>

theorem leaderboard_ordered_bounded:
  "sorted_wrt (\<lambda>x y. snd (snd y) \<le> snd (snd x))
      (leaderboard engine tz now now' st ids act period limit)
   \<and> (0 \<le> limit \<longrightarrow>
        int (length (leaderboard engine tz now now' st ids act period limit)) \<le> limit)
   \<and> (rearranges engine \<longrightarrow>
        fst ` set (leaderboard engine tz now now' st ids act period limit) \<subseteq> set ids)
   \<and> leaderboard engine tz now now' st [] act period limit = []"
proof -
  let ?rows = "sql_limit limit
      (order_by_seconds_desc engine (user_rows tz now now' st ids act period))"
  have srt: "sorted_wrt (\<lambda>x y. snd y \<le> snd x) ?rows"
    by (intro sorted_sql_limit sorted_order_by)
  have mem: "u \<in> set ids" if "rearranges engine" and "((u, n), s) \<in> set ?rows" for u n s
    using that set_sql_limit [of limit
        "order_by_seconds_desc engine (user_rows tz now now' st ids act period)"]
    by (auto simp: set_order_by dest: user_rows_ids)
  have 1: "sorted_wrt (\<lambda>x y. snd (snd y) \<le> snd (snd x))
      (leaderboard engine tz now now' st ids act period limit)"
    using srt by (simp add: leaderboard_def sorted_wrt_map case_prod_beta)
  have 2: "0 \<le> limit \<longrightarrow>
      int (length (leaderboard engine tz now now' st ids act period limit)) \<le> limit"
    by (simp add: leaderboard_def length_sql_limit)
  have 3: "rearranges engine \<longrightarrow>
      fst ` set (leaderboard engine tz now now' st ids act period limit) \<subseteq> set ids"
    using mem by (auto simp: leaderboard_def)
  have 4: "leaderboard engine tz now now' st [] act period limit = []"
    by (simp add: leaderboard_def)
  from 1 2 3 4 show ?thesis by blast
qed

theorem leaderboard_ordered_bounded_witness:
  "leaderboard (\<lambda>rows. rows) (\<lambda>_. 0) 0 1
      \<lparr>totals = [((2, ''Chess''), 60), ((1, ''Chess''), 120), ((3, ''Chess''), 500)],
        daily_totals = [((2, ''Chess'', 0), 60), ((1, ''Chess'', 0), 120), ((3, ''Chess'', 0), 500)],
        guild_usernames = [(1, (''alice'', 0)), (2, (''bob'', 0)), (3, (''eve'', 0))]\<rparr>
      [1, 2] None ''all'' 1 = [(1, ''alice'', 120)]
   \<and> int (length (leaderboard (\<lambda>rows. rows) (\<lambda>_. 0) 0 1
      \<lparr>totals = [((2, ''Chess''), 60), ((1, ''Chess''), 120), ((3, ''Chess''), 500)],
        daily_totals = [((2, ''Chess'', 0), 60), ((1, ''Chess'', 0), 120), ((3, ''Chess'', 0), 500)],
        guild_usernames = [(1, (''alice'', 0)), (2, (''bob'', 0)), (3, (''eve'', 0))]\<rparr>
      [1, 2] None ''all'' 1)) \<le> 1
   \<and> fst ` set (leaderboard (\<lambda>rows. rows) (\<lambda>_. 0) 0 1
      \<lparr>totals = [((2, ''Chess''), 60), ((1, ''Chess''), 120), ((3, ''Chess''), 500)],
        daily_totals = [((2, ''Chess'', 0), 60), ((1, ''Chess'', 0), 120), ((3, ''Chess'', 0), 500)],
        guild_usernames = [(1, (''alice'', 0)), (2, (''bob'', 0)), (3, (''eve'', 0))]\<rparr>
      [1, 2] None ''all'' 1) \<subseteq> set [1, 2]"
proof -
  have h: "(0::int) \<le> 1"
    by simp
  have r: "rearranges (\<lambda>rows :: ((user_id \<times> string) \<times> int) list. rows)"
    by (rule rearranges_id)
  have e: "leaderboard (\<lambda>rows. rows) (\<lambda>_. 0) 0 1
      \<lparr>totals = [((2, ''Chess''), 60), ((1, ''Chess''), 120), ((3, ''Chess''), 500)],
        daily_totals = [((2, ''Chess'', 0), 60), ((1, ''Chess'', 0), 120), ((3, ''Chess'', 0), 500)],
        guild_usernames = [(1, (''alice'', 0)), (2, (''bob'', 0)), (3, (''eve'', 0))]\<rparr>
      [1, 2] None ''all'' 1 = [(1, ''alice'', 120)]"
    by (simp add: top_activities_def activity_rows_def leaderboard_def user_rows_def given_name_def
      join_usernames_def iso_date_local_def period_start_def day_between_def
      group_sum_def order_by_seconds_desc_def sql_limit_def Let_def)
  note b = leaderboard_ordered_bounded [where limit = 1 and engine = "\<lambda>rows. rows"
      and tz = "\<lambda>_. 0" and now = 0 and now' = 1
      and ids = "[1, 2]" and act = None and period = "''all''"
      and st = "\<lparr>totals = [((2, ''Chess''), 60), ((1, ''Chess''), 120), ((3, ''Chess''), 500)],
        daily_totals = [((2, ''Chess'', 0), 60), ((1, ''Chess'', 0), 120), ((3, ''Chess'', 0), 500)],
        guild_usernames = [(1, (''alice'', 0)), (2, (''bob'', 0)), (3, (''eve'', 0))]\<rparr>"]
  from b h r have "int (length (leaderboard (\<lambda>rows. rows) (\<lambda>_. 0) 0 1
      \<lparr>totals = [((2, ''Chess''), 60), ((1, ''Chess''), 120), ((3, ''Chess''), 500)],
        daily_totals = [((2, ''Chess'', 0), 60), ((1, ''Chess'', 0), 120), ((3, ''Chess'', 0), 500)],
        guild_usernames = [(1, (''alice'', 0)), (2, (''bob'', 0)), (3, (''eve'', 0))]\<rparr>
      [1, 2] None ''all'' 1)) \<le> 1"
    and "fst ` set (leaderboard (\<lambda>rows. rows) (\<lambda>_. 0) 0 1
      \<lparr>totals = [((2, ''Chess''), 60), ((1, ''Chess''), 120), ((3, ''Chess''), 500)],
        daily_totals = [((2, ''Chess'', 0), 60), ((1, ''Chess'', 0), 120), ((3, ''Chess'', 0), 500)],
        guild_usernames = [(1, (''alice'', 0)), (2, (''bob'', 0)), (3, (''eve'', 0))]\<rparr>
      [1, 2] None ''all'' 1) \<subseteq> set [1, 2]"
    by blast+
  with e show ?thesis
    by blast
qed

text \<open>
  C8 as stated, for every limit, fails at \<open>limit = -1\<close>: the limit goes to
  \<^verbatim>\<open>LIMIT ?\<close> as it is, SQLite returns every row for a negative limit, and two
  entries are more than \<open>-1\<close>. The two rows have different seconds, so their order is
  the same for every engine.
\<close>

theorem leaderboard_negative_limit_counterexample:
  "leaderboard (\<lambda>rows. rows) (\<lambda>_. 0) 0 1
      \<lparr>totals = [((1, ''Chess''), 120), ((2, ''Chess''), 60)],
        daily_totals = [((1, ''Chess'', 0), 120), ((2, ''Chess'', 0), 60)],
        guild_usernames = [(1, (''alice'', 0)), (2, (''bob'', 0))]\<rparr>
      [1, 2] None ''all'' (- 1)
     = [(1, ''alice'', 120), (2, ''bob'', 60)]
   \<and> \<not> int (length (leaderboard (\<lambda>rows. rows) (\<lambda>_. 0) 0 1
      \<lparr>totals = [((1, ''Chess''), 120), ((2, ''Chess''), 60)],
        daily_totals = [((1, ''Chess'', 0), 120), ((2, ''Chess'', 0), 60)],
        guild_usernames = [(1, (''alice'', 0)), (2, (''bob'', 0))]\<rparr>
      [1, 2] None ''all'' (- 1))) \<le> - 1"
  by (simp add: top_activities_def activity_rows_def leaderboard_def user_rows_def given_name_def
      join_usernames_def iso_date_local_def period_start_def day_between_def
      group_sum_def order_by_seconds_desc_def sql_limit_def Let_def)

section \<open>Periods and windows\<close>

text \<open>
  C2, as the program has it. A period string other than \<^verbatim>\<open>"today"\<close>, \<^verbatim>\<open>"week"\<close>,
  \<^verbatim>\<open>"month"\<close> and \<^verbatim>\<open>"all"\<close> is not rejected: both queries take the fallback start
  \<^verbatim>\<open>"0000-01-01"\<close> and return the ranking over every \<^verbatim>\<open>daily_totals\<close> row dated
  today or earlier, today being the local day of the first read of the clock.
\<close>

theorem unknown_period_fallback:
  "period \<notin> {''today'', ''week'', ''month'', ''all''} \<Longrightarrow>
     top_activities engine tz now now' st u period limit
       = sql_limit limit (order_by_seconds_desc engine (group_sum
           (map (\<lambda>((u', a, d), s). (a, s))
              (filter (\<lambda>((u', a, d), s). u' = u \<and> d \<le> iso_date_local tz now)
                 (daily_totals st)))))
     \<and> leaderboard engine' tz now now' st ids act period limit
       = (if ids = [] then []
          else map (\<lambda>((u', n), s). (u', n, s))
            (sql_limit limit (order_by_seconds_desc engine' (group_sum
               (map (\<lambda>(((u', a, d), s), n). ((u', n), s))
                  (filter (\<lambda>(((u', a, d), s), n). u' \<in> set ids
                       \<and> (case given_name act of None \<Rightarrow> True | Some x \<Rightarrow> a = x)
                       \<and> d \<le> iso_date_local tz now)
                     (join_usernames (daily_totals st) fst (guild_usernames st))))))))"
  by (auto simp: top_activities_def activity_rows_def leaderboard_def user_rows_def
      period_start_def day_between_def Let_def split: option.splits)

theorem unknown_period_fallback_witness:
  "top_activities (\<lambda>rows. rows) (\<lambda>_. 0) 4320000000000 4320000000001
      \<lparr>totals = [((1, ''Chess''), 60), ((1, ''Go''), 30)],
        daily_totals = [((1, ''Chess'', 0), 60), ((1, ''Go'', 100), 30)],
        guild_usernames = [(1, (''alice'', 0))]\<rparr> 1 ''year'' 10
     = [(''Chess'', 60)]
   \<and> leaderboard (\<lambda>rows. rows) (\<lambda>_. 0) 4320000000000 4320000000001
      \<lparr>totals = [((1, ''Chess''), 60), ((1, ''Go''), 30)],
        daily_totals = [((1, ''Chess'', 0), 60), ((1, ''Go'', 100), 30)],
        guild_usernames = [(1, (''alice'', 0))]\<rparr> [1] None ''year'' 10
     = [(1, ''alice'', 60)]"
proof -
  have h: "''year'' \<notin> {''today'', ''week'', ''month'', ''all''}"
    by simp
  from unknown_period_fallback [OF h, where tz = "\<lambda>_. 0" and now = 4320000000000
      and now' = 4320000000001 and u = 1 and limit = 10 and ids = "[1]" and act = None
      and engine = "\<lambda>rows. rows" and engine' = "\<lambda>rows. rows"
      and st = "\<lparr>totals = [((1, ''Chess''), 60), ((1, ''Go''), 30)],
        daily_totals = [((1, ''Chess'', 0), 60), ((1, ''Go'', 100), 30)],
        guild_usernames = [(1, (''alice'', 0))]\<rparr>"]
  show ?thesis
    by (simp add: given_name_def join_usernames_def iso_date_local_def group_sum_def
        order_by_seconds_desc_def sql_limit_def)
qed

text \<open>
  C2 as stated fails: with one row dated day \<open>-700000\<close> (in the year 53) and the period
  \<^verbatim>\<open>"bogus"\<close>, both queries return that row's seconds instead of an error.
\<close>

theorem unknown_period_counterexample:
  "top_activities (\<lambda>rows. rows) (\<lambda>_. 0) 0 1
      \<lparr>totals = [((1, ''Chess''), 60)], daily_totals = [((1, ''Chess'', - 700000), 60)],
        guild_usernames = [(1, (''alice'', 0))]\<rparr> 1 ''bogus'' 10
     = [(''Chess'', 60)]
   \<and> leaderboard (\<lambda>rows. rows) (\<lambda>_. 0) 0 1
      \<lparr>totals = [((1, ''Chess''), 60)], daily_totals = [((1, ''Chess'', - 700000), 60)],
        guild_usernames = [(1, (''alice'', 0))]\<rparr> [1] None ''bogus'' 10
     = [(1, ''alice'', 60)]"
  by (simp add: top_activities_def activity_rows_def leaderboard_def user_rows_def given_name_def
      join_usernames_def iso_date_local_def period_start_def day_between_def
      group_sum_def order_by_seconds_desc_def sql_limit_def Let_def)



end
